theory Spec2Isabelle
  imports Main
begin

section \<open>The Dialer component of src/components/Dialer.tsx\<close>

text \<open>
  The component keeps eight pieces of React state, two mutable references
  (\<open>uaRef\<close>, \<open>activeSessionRef\<close>) and drives the JsSIP library. Every handler of the
  component (a button callback or a callback registered on a JsSIP object) is
  modelled as a function from the component's state to its next state. Handlers run
  to completion one after the other on the single JavaScript thread and each one
  reads the state committed by the previous one, so a handler is one atomic step.

  JsSIP is not part of the repository. Every call the component makes on it is
  appended to the trace \<open>engine\<close>, oldest call first, whether the call returns or
  raises. Objects JsSIP creates are named by natural numbers. What the library does
  on a call is a parameter of type \<open>JsSIP\<close>: the two constructors called in the
  \<open>try\<close> block of \<open>connect\<close> may raise, \<open>ua.call\<close> may raise or announce the new
  session (it invokes the \<open>newRTCSession\<close> handler before it returns), and
  \<open>session.terminate\<close> may raise. \<open>call\<close> and \<open>terminate\<close> are called outside any
  \<open>try\<close>: when they raise, the handler stops there and the statements after the
  call do not run. Their outcome may depend on everything the library has been asked
  so far, so it is a function of the trace. \<open>on\<close>, \<open>start\<close> and \<open>stop\<close> return.
  \<open>sendDTMF\<close> is the last statement of its handler, after the only state update, so
  the state is the same whether it returns or raises.

  JavaScript strings are modelled as \<open>string\<close>; only their length, emptiness and
  concatenation matter here.
\<close>

subsection \<open>Data\<close>

datatype ConnectionStatus =
  disconnected | connecting | connected | registered | registration_failed

datatype CallState = idle | calling | in_call | terminated | failed

type_synonym UA = nat
type_synonym RTCSession = nat

text \<open>The configuration object given to \<open>new JsSIP.UA\<close> (lines 56-62).\<close>

record UAConfiguration =
  sockets :: "string list"
  uri :: string
  password_cfg :: string
  display_name :: string
  session_timers :: bool

text \<open>The options object given to \<open>ua.call\<close> (lines 146-153); \<open>eventHandlers\<close> lists
  the events for which \<open>dial\<close> passes a handler, \<open>iceServers\<close> the \<open>urls\<close> of each server.\<close>

record RTCSessionOptions =
  eventHandlers :: "string list"
  audio :: bool
  video :: bool
  rtcpMuxPolicy :: string
  iceServers :: "string list list"

datatype engine_call =
    NewWebSocketInterface string
  | NewUA UAConfiguration
  | UaOn UA string
  | UaStart UA
  | UaStop UA
  | UaCall UA string RTCSessionOptions
  | SessionOn RTCSession string
  | SessionTerminate RTCSession
  | SessionSendDTMF RTCSession string

text \<open>What \<open>ua.call\<close> does: it raises, or it creates a session and announces it.\<close>

datatype call_result = CallRaises string | CallAnnounces RTCSession

text \<open>What the library does. For the constructors and \<open>terminate\<close>, \<open>Some m\<close> is
  raising an \<open>Error\<close> whose message is \<open>m\<close>. \<open>ua_call\<close> and \<open>session_terminate\<close> are
  given the trace of the calls made before this one.\<close>

record JsSIP =
  newWebSocketInterface :: "string \<Rightarrow> string option"
  newUA :: "UAConfiguration \<Rightarrow> string option"
  ua_call :: "engine_call list \<Rightarrow> UA \<Rightarrow> string \<Rightarrow> call_result"
  session_terminate :: "engine_call list \<Rightarrow> RTCSession \<Rightarrow> string option"

record dialer =
  wsUri :: string
  sipUri :: string
  displayName :: string
  password :: string
  status :: ConnectionStatus
  callState :: CallState
  number :: string
  logEntries :: "string list"
  uaRef :: "UA option"
  activeSessionRef :: "RTCSession option"
  engine :: "engine_call list"

text \<open>The state of a freshly mounted component (lines 20-30).\<close>

definition initial :: dialer where
  "initial = \<lparr> wsUri = ''wss://sip.example.com:7443'',
               sipUri = ''sip:1001@sip.example.com'',
               displayName = ''Web Agent'',
               password = [],
               status = disconnected,
               callState = idle,
               number = [],
               logEntries = [],
               uaRef = None,
               activeSessionRef = None,
               engine = [] \<rparr>"

subsection \<open>Helpers\<close>

text \<open>\<open>addLog\<close> (lines 32-34): \<open>[message, ...prev].slice(0, 20)\<close>.\<close>

definition addLog :: "string \<Rightarrow> dialer \<Rightarrow> dialer" where
  "addLog message s = s\<lparr>logEntries := take 20 (message # logEntries s)\<rparr>"

text \<open>\<open>isConnected\<close> (lines 36-39).\<close>

definition isConnected :: "dialer \<Rightarrow> bool" where
  "isConnected s = (status s = connected \<or> status s = registered)"

definition setStatus :: "ConnectionStatus \<Rightarrow> dialer \<Rightarrow> dialer" where
  "setStatus v s = s\<lparr>status := v\<rparr>"

definition setCallState :: "CallState \<Rightarrow> dialer \<Rightarrow> dialer" where
  "setCallState v s = s\<lparr>callState := v\<rparr>"

text \<open>A call on a JsSIP object, recorded in the trace.\<close>

definition called :: "engine_call \<Rightarrow> dialer \<Rightarrow> dialer" where
  "called c s = s\<lparr>engine := engine s @ [c]\<rparr>"

text \<open>\<open>e.cause || 'unknown'\<close>: an absent or empty cause reads as \<open>unknown\<close>.\<close>

definition cause_or_unknown :: "string option \<Rightarrow> string" where
  "cause_or_unknown c =
     (case c of None \<Rightarrow> ''unknown'' | Some x \<Rightarrow> if x = [] then ''unknown'' else x)"

subsection \<open>Handlers registered on the UA (lines 64-105)\<close>

definition ua_connected :: "dialer \<Rightarrow> dialer" where
  "ua_connected s = addLog ''Socket connected.'' (setStatus connected s)"

definition ua_disconnected :: "dialer \<Rightarrow> dialer" where
  "ua_disconnected s =
     addLog ''Socket disconnected.'' (setCallState terminated (setStatus disconnected s))"

definition ua_registered :: "dialer \<Rightarrow> dialer" where
  "ua_registered s = addLog ''Registered with SIP server.'' (setStatus registered s)"

definition ua_unregistered :: "dialer \<Rightarrow> dialer" where
  "ua_unregistered s = addLog ''Unregistered.'' (setStatus connected s)"

definition ua_registrationFailed :: "string option \<Rightarrow> dialer \<Rightarrow> dialer" where
  "ua_registrationFailed cause s =
     addLog (''Registration failed: '' @ cause_or_unknown cause)
       (setStatus registration_failed s)"

text \<open>The \<open>newRTCSession\<close> handler (lines 90-105): the reference is assigned first,
  with no test of its former value, then four handlers are registered on the session.\<close>

definition newRTCSession :: "RTCSession \<Rightarrow> dialer \<Rightarrow> dialer" where
  "newRTCSession session s =
     called (SessionOn session ''failed'')
       (called (SessionOn session ''ended'')
         (called (SessionOn session ''confirmed'')
           (called (SessionOn session ''progress'')
             (s\<lparr>activeSessionRef := Some session\<rparr>))))"

text \<open>\<open>updateState\<close> (lines 94-97) and the four session handlers built from it.\<close>

definition updateState :: "CallState \<Rightarrow> string \<Rightarrow> dialer \<Rightarrow> dialer" where
  "updateState state message s = addLog message (setCallState state s)"

definition session_progress :: "dialer \<Rightarrow> dialer" where
  "session_progress s = updateState calling ''Call in progress...'' s"

definition session_confirmed :: "dialer \<Rightarrow> dialer" where
  "session_confirmed s = updateState in_call ''Call confirmed.'' s"

definition session_ended :: "dialer \<Rightarrow> dialer" where
  "session_ended s = updateState terminated ''Call ended.'' s"

definition session_failed :: "string option \<Rightarrow> dialer \<Rightarrow> dialer" where
  "session_failed cause s =
     updateState failed (''Call failed: '' @ cause_or_unknown cause) s"

subsection \<open>connect (lines 48-115)\<close>

text \<open>The \<open>catch\<close> block (lines 111-114).\<close>

definition connect_catch :: "string \<Rightarrow> dialer \<Rightarrow> dialer" where
  "connect_catch message s =
     setStatus disconnected (addLog (''Connection error: '' @ message) s)"

definition ua_events :: "string list" where
  "ua_events = [''connected'', ''disconnected'', ''registered'', ''unregistered'',
                ''registrationFailed'', ''newRTCSession'']"

text \<open>The object literal of lines 56-62.\<close>

definition configuration :: "dialer \<Rightarrow> UAConfiguration" where
  "configuration s = \<lparr> sockets = [wsUri s], uri = sipUri s, password_cfg = password s,
                        display_name = displayName s, session_timers = False \<rparr>"

definition connect :: "JsSIP \<Rightarrow> dialer \<Rightarrow> dialer" where
  "connect lib s =
     (if wsUri s = [] \<or> sipUri s = [] \<or> password s = [] then
        addLog ''Please provide WebSocket URL, SIP URI, and password.'' s
      else
        (let s1 = called (NewWebSocketInterface (wsUri s)) s in
         (case newWebSocketInterface lib (wsUri s) of
            Some m \<Rightarrow> connect_catch m s1
          | None \<Rightarrow>
              (let cfg = configuration s;
                   ua = length (engine s1);
                   s2 = called (NewUA cfg) s1
               in (case newUA lib cfg of
                     Some m \<Rightarrow> connect_catch m s2
                   | None \<Rightarrow>
                       (let s3 = foldl (\<lambda>t e. called (UaOn ua e) t) s2 ua_events;
                            s4 = called (UaStart ua) s3;
                            s5 = s4\<lparr>uaRef := Some ua\<rparr>
                        in addLog ''Connecting...'' (setStatus connecting s5)))))))"

subsection \<open>disconnect (lines 117-123)\<close>

text \<open>Lines 119-122, which run when line 118 has returned.\<close>

definition disconnect_rest :: "dialer \<Rightarrow> dialer" where
  "disconnect_rest s1 =
     (let s2 = (case uaRef s1 of
                  None \<Rightarrow> s1 | Some ua \<Rightarrow> called (UaStop ua) s1)
      in addLog ''Disconnected from server.''
           (setCallState terminated (setStatus disconnected s2)))"

definition disconnect :: "JsSIP \<Rightarrow> dialer \<Rightarrow> dialer" where
  "disconnect lib s =
     (case activeSessionRef s of
        None \<Rightarrow> disconnect_rest s
      | Some session \<Rightarrow>
          (let s1 = called (SessionTerminate session) s
           in (case session_terminate lib (engine s) session of
                 Some m \<Rightarrow> s1
               | None \<Rightarrow> disconnect_rest s1)))"

subsection \<open>dial (lines 125-157)\<close>

text \<open>The handlers \<open>dial\<close> passes in \<open>options.eventHandlers\<close> (lines 136-144).\<close>

definition call_progress :: "dialer \<Rightarrow> dialer" where
  "call_progress s = setCallState calling s"

definition call_failed :: "string option \<Rightarrow> dialer \<Rightarrow> dialer" where
  "call_failed cause s =
     addLog (''Call failed: '' @ cause_or_unknown cause) (setCallState failed s)"

definition call_confirmed :: "dialer \<Rightarrow> dialer" where
  "call_confirmed s = setCallState in_call s"

definition call_ended :: "dialer \<Rightarrow> dialer" where
  "call_ended s = setCallState terminated s"

definition options :: RTCSessionOptions where
  "options = \<lparr> eventHandlers = [''progress'', ''failed'', ''confirmed'', ''ended''],
               audio = True, video = False,
               rtcpMuxPolicy = ''require'',
               iceServers = [[''stun:stun.l.google.com:19302'']] \<rparr>"

text \<open>Line 155: the call is made; when the library raises, \<open>dial\<close> ends there;
  otherwise the library has run the \<open>newRTCSession\<close> handler on the new session by
  the time the call returns, and line 156 follows.\<close>

definition dial :: "JsSIP \<Rightarrow> dialer \<Rightarrow> dialer" where
  "dial lib s =
     (case uaRef s of
        None \<Rightarrow> addLog ''Connect to the SIP server first.'' s
      | Some ua \<Rightarrow>
          if \<not> isConnected s then addLog ''Connect to the SIP server first.'' s
          else if number s = [] then addLog ''Enter a destination number.'' s
          else
            (let s1 = called (UaCall ua (number s) options) s
             in (case ua_call lib (engine s) ua (number s) of
                   CallRaises m \<Rightarrow> s1
                 | CallAnnounces session \<Rightarrow>
                     addLog (''Dialing '' @ number s @ ''...'')
                       (newRTCSession session s1))))"

subsection \<open>hangup (lines 159-164) and handleKeypad (lines 166-169)\<close>

definition hangup :: "JsSIP \<Rightarrow> dialer \<Rightarrow> dialer" where
  "hangup lib s =
     (case activeSessionRef s of
        None \<Rightarrow> s
      | Some session \<Rightarrow>
          (let s1 = called (SessionTerminate session) s
           in (case session_terminate lib (engine s) session of
                 Some m \<Rightarrow> s1
               | None \<Rightarrow> addLog ''Call terminated.'' (setCallState terminated s1))))"

definition handleKeypad :: "string \<Rightarrow> dialer \<Rightarrow> dialer" where
  "handleKeypad digit s =
     (let s1 = s\<lparr>number := take 32 (number s @ digit)\<rparr>
      in case activeSessionRef s1 of
           None \<Rightarrow> s1
         | Some session \<Rightarrow> called (SessionSendDTMF session digit) s1)"

subsection \<open>Sequences of commands and engine events\<close>

text \<open>
  Everything that can happen to the mounted component: the user edits a field,
  presses a button or a key of the keypad, or JsSIP invokes one of the registered
  handlers. \<open>Session*\<close> are the handlers registered in \<open>newRTCSession\<close>, \<open>Call*\<close>
  the ones passed by \<open>dial\<close>. \<open>NewRTCSession\<close> is the announcement of a session
  outside \<open>ua.call\<close> (an incoming call). \<open>run\<close> lets any handler be invoked at any
  time, which covers every order in which the page and the real library can invoke
  them.
\<close>

datatype action =
    SetWsUri string | SetSipUri string | SetDisplayName string | SetPassword string
  | SetNumber string
  | Connect | Disconnect | Dial | Hangup | HandleKeypad string
  | UaConnected | UaDisconnected | UaRegistered | UaUnregistered
  | UaRegistrationFailed "string option" | NewRTCSession RTCSession
  | SessionProgress | SessionConfirmed | SessionEnded | SessionFailed "string option"
  | CallProgress | CallFailed "string option" | CallConfirmed | CallEnded

fun step :: "JsSIP \<Rightarrow> dialer \<Rightarrow> action \<Rightarrow> dialer" where
  "step lib s (SetWsUri v) = s\<lparr>wsUri := v\<rparr>"
| "step lib s (SetSipUri v) = s\<lparr>sipUri := v\<rparr>"
| "step lib s (SetDisplayName v) = s\<lparr>displayName := v\<rparr>"
| "step lib s (SetPassword v) = s\<lparr>password := v\<rparr>"
| "step lib s (SetNumber v) = s\<lparr>number := v\<rparr>"
| "step lib s Connect = connect lib s"
| "step lib s Disconnect = disconnect lib s"
| "step lib s Dial = dial lib s"
| "step lib s Hangup = hangup lib s"
| "step lib s (HandleKeypad d) = handleKeypad d s"
| "step lib s UaConnected = ua_connected s"
| "step lib s UaDisconnected = ua_disconnected s"
| "step lib s UaRegistered = ua_registered s"
| "step lib s UaUnregistered = ua_unregistered s"
| "step lib s (UaRegistrationFailed c) = ua_registrationFailed c s"
| "step lib s (NewRTCSession x) = newRTCSession x s"
| "step lib s SessionProgress = session_progress s"
| "step lib s SessionConfirmed = session_confirmed s"
| "step lib s SessionEnded = session_ended s"
| "step lib s (SessionFailed c) = session_failed c s"
| "step lib s CallProgress = call_progress s"
| "step lib s (CallFailed c) = call_failed c s"
| "step lib s CallConfirmed = call_confirmed s"
| "step lib s CallEnded = call_ended s"

definition run :: "JsSIP \<Rightarrow> action list \<Rightarrow> dialer \<Rightarrow> dialer" where
  "run lib acts s = foldl (step lib) s acts"

subsection \<open>The page (lines 171-308)\<close>

text \<open>
  What the user can do depends on what is rendered. The Call button, the only caller
  of \<open>dial\<close> (line 272), is rendered when \<open>activeSessionRef.current\<close> was null at the
  last render (line 267), and is disabled unless \<open>isConnected\<close>. Writing a reference
  does not render; setting a state does. \<open>shown_session\<close> is the reference as the last
  render read it. It is refreshed whenever a step changed the value of a state; the
  real page renders at least then (possibly more often, a log of equal content being
  a new array), and since the reference never goes back to null a later render can
  only hide the Call button, so every press of Call the real page allows is allowed
  here. The handlers of session events exist only on a session that was announced, so
  these events need a referenced session; the events of the UA need a UA. The other
  commands are not restricted: \<open>hangup\<close> tests the reference itself, and letting
  \<open>disconnect\<close> run at any time only adds behaviours.
\<close>

record page =
  component :: dialer
  shown_session :: "RTCSession option"


definition state_changed :: "dialer \<Rightarrow> dialer \<Rightarrow> bool" where
  "state_changed s t =
     (wsUri s \<noteq> wsUri t \<or> sipUri s \<noteq> sipUri t \<or> displayName s \<noteq> displayName t
      \<or> password s \<noteq> password t \<or> status s \<noteq> status t \<or> callState s \<noteq> callState t
      \<or> number s \<noteq> number t \<or> logEntries s \<noteq> logEntries t)"

fun enabled :: "page \<Rightarrow> action \<Rightarrow> bool" where
  "enabled p Dial = (shown_session p = None \<and> isConnected (component p))"
| "enabled p SessionProgress = (activeSessionRef (component p) \<noteq> None)"
| "enabled p SessionConfirmed = (activeSessionRef (component p) \<noteq> None)"
| "enabled p SessionEnded = (activeSessionRef (component p) \<noteq> None)"
| "enabled p (SessionFailed c) = (activeSessionRef (component p) \<noteq> None)"
| "enabled p CallProgress = (activeSessionRef (component p) \<noteq> None)"
| "enabled p (CallFailed c) = (activeSessionRef (component p) \<noteq> None)"
| "enabled p CallConfirmed = (activeSessionRef (component p) \<noteq> None)"
| "enabled p CallEnded = (activeSessionRef (component p) \<noteq> None)"
| "enabled p UaConnected = (uaRef (component p) \<noteq> None)"
| "enabled p UaDisconnected = (uaRef (component p) \<noteq> None)"
| "enabled p UaRegistered = (uaRef (component p) \<noteq> None)"
| "enabled p UaUnregistered = (uaRef (component p) \<noteq> None)"
| "enabled p (UaRegistrationFailed c) = (uaRef (component p) \<noteq> None)"
| "enabled p (NewRTCSession x) = (uaRef (component p) \<noteq> None)"
| "enabled p a = True"

text \<open>A step of the page; what is not enabled cannot happen and changes nothing.\<close>

definition page_step :: "JsSIP \<Rightarrow> page \<Rightarrow> action \<Rightarrow> page" where
  "page_step lib p a =
     (if enabled p a then
        (let t = step lib (component p) a
         in \<lparr> component = t,
              shown_session = (if state_changed (component p) t then activeSessionRef t
                               else shown_session p) \<rparr>)
      else p)"

definition page_run :: "JsSIP \<Rightarrow> action list \<Rightarrow> page \<Rightarrow> page" where
  "page_run lib acts p = foldl (page_step lib) p acts"

subsection \<open>Libraries used as inputs\<close>

text \<open>A library that never raises; the session a call creates is named by the
  length of the trace.\<close>

definition jssip_ok :: JsSIP where
  "jssip_ok = \<lparr> newWebSocketInterface = (\<lambda>_. None), newUA = (\<lambda>_. None),
                ua_call = (\<lambda>tr ua target. CallAnnounces (length tr)),
                session_terminate = (\<lambda>tr x. None) \<rparr>"

text \<open>A library whose socket constructor raises on a URL that is not a WebSocket URL,
  whose \<open>call\<close> raises on the target \<open>@\<close>, and whose \<open>terminate\<close> raises on a session
  that was terminated before.\<close>

definition jssip_strict :: JsSIP where
  "jssip_strict =
     \<lparr> newWebSocketInterface =
         (\<lambda>u. if take 5 u = ''ws://'' \<or> take 6 u = ''wss://'' then None
              else Some (''Invalid argument: '' @ u)),
       newUA = (\<lambda>_. None),
       ua_call = (\<lambda>tr ua target. if target = ''@'' then CallRaises ''Invalid target: @''
                                  else CallAnnounces (length tr)),
       session_terminate = (\<lambda>tr x. if SessionTerminate x \<in> set tr
                                    then Some ''Invalid status: 8'' else None) \<rparr>"

subsection \<open>Concrete states used as inputs\<close>

text \<open>The user typed a password and connected; the socket came up and the
  registration succeeded.\<close>

definition registered_state :: dialer where
  "registered_state =
     run jssip_ok [SetPassword ''secret'', Connect, UaConnected, UaRegistered] initial"

text \<open>Then the user typed a destination.\<close>

definition ready_state :: dialer where
  "ready_state = run jssip_ok [SetNumber ''555''] registered_state"

text \<open>Then the user dialled, JsSIP announced the outgoing session (object 9) and
  reported its progress to both sets of handlers.\<close>

definition busy_state :: dialer where
  "busy_state = run jssip_ok [Dial, CallProgress, SessionProgress] ready_state"

text \<open>Then the user hung up.\<close>

definition hung_up_state :: dialer where
  "hung_up_state = run jssip_strict [Hangup] busy_state"

text \<open>Registered, then the user typed the destination \<open>@\<close>.\<close>

definition at_sign_state :: dialer where
  "at_sign_state = run jssip_strict [SetNumber ''@''] registered_state"


text \<open>Registered as above, then the user replaced the WebSocket URL by \<open>foo\<close>.\<close>

definition bad_url_state :: dialer where
  "bad_url_state = run jssip_strict [SetWsUri ''foo''] registered_state"

text \<open>A dial string of 32 characters while session 7 is referenced.\<close>

definition full_number_state :: dialer where
  "full_number_state =
     initial\<lparr> number := ''12345678901234567890123456789012'', activeSessionRef := Some 7 \<rparr>"

text \<open>Twenty-five messages, \<open>a\<close> the oldest.\<close>

definition messages25 :: "string list" where
  "messages25 =
     [''a'', ''b'', ''c'', ''d'', ''e'', ''f'', ''g'', ''h'', ''i'', ''j'', ''k'', ''l'', ''m'',
      ''n'', ''o'', ''p'', ''q'', ''r'', ''s'', ''t'', ''u'', ''v'', ''w'', ''x'', ''y'']"

subsection \<open>Notions used in the statements\<close>

text \<open>The session the library announces during an action, if any: the one of an
  incoming call, or the one \<open>ua.call\<close> creates when \<open>dial\<close> reaches it and it returns.\<close>

definition dial_announces :: "JsSIP \<Rightarrow> dialer \<Rightarrow> RTCSession option" where
  "dial_announces lib s =
     (case uaRef s of
        None \<Rightarrow> None
      | Some ua \<Rightarrow>
          if isConnected s \<and> number s \<noteq> [] then
            (case ua_call lib (engine s) ua (number s) of
               CallRaises m \<Rightarrow> None
             | CallAnnounces x \<Rightarrow> Some x)
          else None)"

definition announces :: "JsSIP \<Rightarrow> dialer \<Rightarrow> action \<Rightarrow> RTCSession option" where
  "announces lib s a =
     (case a of NewRTCSession x \<Rightarrow> Some x | Dial \<Rightarrow> dial_announces lib s | _ \<Rightarrow> None)"

text \<open>The session reference after an action: the announced session, or the held one
  when none was announced.\<close>

definition announced :: "JsSIP \<Rightarrow> dialer \<Rightarrow> action \<Rightarrow> RTCSession option" where
  "announced lib s a =
     (case announces lib s a of None \<Rightarrow> activeSessionRef s | Some x \<Rightarrow> Some x)"

text \<open>The sessions announced along a sequence of actions, oldest first.\<close>

fun announcements :: "JsSIP \<Rightarrow> dialer \<Rightarrow> action list \<Rightarrow> RTCSession list" where
  "announcements lib s [] = []"
| "announcements lib s (a # acts) =
     (case announces lib s a of None \<Rightarrow> [] | Some x \<Rightarrow> [x])
       @ announcements lib (step lib s a) acts"

text \<open>Whether \<open>terminate\<close> returns on the session a state references, if any.\<close>

definition terminate_returns :: "JsSIP \<Rightarrow> dialer \<Rightarrow> bool" where
  "terminate_returns lib s =
     (case activeSessionRef s of
        None \<Rightarrow> True
      | Some x \<Rightarrow> session_terminate lib (engine s) x = None)"

text \<open>The UA object a call is made on.\<close>

fun ua_of :: "engine_call \<Rightarrow> UA option" where
  "ua_of (UaOn u e) = Some u"
| "ua_of (UaStart u) = Some u"
| "ua_of (UaStop u) = Some u"
| "ua_of (UaCall u n opts) = Some u"
| "ua_of c = None"

definition older :: "nat \<Rightarrow> UA option \<Rightarrow> bool" where
  "older n h = (case h of None \<Rightarrow> True | Some u \<Rightarrow> u < n)"

text \<open>Every UA object the component references or has called was created by an
  earlier call of the trace.\<close>

definition handles_known :: "dialer \<Rightarrow> bool" where
  "handles_known s =
     (older (length (engine s)) (uaRef s)
      \<and> list_all (\<lambda>c. older (length (engine s)) (ua_of c)) (engine s))"


section \<open>Basic facts\<close>

lemmas handler_defs =
  addLog_def setStatus_def setCallState_def called_def updateState_def
  ua_connected_def ua_disconnected_def ua_registered_def ua_unregistered_def
  ua_registrationFailed_def newRTCSession_def
  session_progress_def session_confirmed_def session_ended_def session_failed_def
  call_progress_def call_failed_def call_confirmed_def call_ended_def
  configuration_def connect_def connect_catch_def ua_events_def disconnect_rest_def
  disconnect_def dial_def hangup_def handleKeypad_def

lemma run_Nil [simp]: "run lib [] s = s"
  by (simp add: run_def)

lemma run_snoc [simp]: "run lib (acts @ [a]) s = step lib (run lib acts s) a"
  by (simp add: run_def)

lemma run_Cons: "run lib (a # acts) s = run lib acts (step lib s a)"
  by (simp add: run_def)

lemma page_run_Nil [simp]: "page_run lib [] p = p"
  by (simp add: page_run_def)

lemma page_run_snoc [simp]:
  "page_run lib (acts @ [a]) p = page_step lib (page_run lib acts p) a"
  by (simp add: page_run_def)

lemma registered_state_eq:
  "registered_state =
     \<lparr> wsUri = ''wss://sip.example.com:7443'',
       sipUri = ''sip:1001@sip.example.com'',
       displayName = ''Web Agent'',
       password = ''secret'',
       status = registered,
       callState = idle,
       number = [],
       logEntries = [''Registered with SIP server.'', ''Socket connected.'', ''Connecting...''],
       uaRef = Some 1,
       activeSessionRef = None,
       engine =
         [NewWebSocketInterface ''wss://sip.example.com:7443'',
          NewUA \<lparr> sockets = [''wss://sip.example.com:7443''],
                  uri = ''sip:1001@sip.example.com'', password_cfg = ''secret'',
                  display_name = ''Web Agent'', session_timers = False \<rparr>,
          UaOn 1 ''connected'', UaOn 1 ''disconnected'', UaOn 1 ''registered'',
          UaOn 1 ''unregistered'', UaOn 1 ''registrationFailed'', UaOn 1 ''newRTCSession'',
          UaStart 1] \<rparr>"
  by (simp add: registered_state_def run_def initial_def jssip_ok_def handler_defs)

lemma ready_state_eq: "ready_state = registered_state\<lparr>number := ''555''\<rparr>"
  by (simp add: ready_state_def run_def)

lemma busy_state_eq:
  "busy_state = registered_state
     \<lparr> number := ''555'',
       callState := calling,
       logEntries := [''Call in progress...'', ''Dialing 555...'',
                      ''Registered with SIP server.'', ''Socket connected.'',
                      ''Connecting...''],
       activeSessionRef := Some 9,
       engine := engine registered_state @
                   [UaCall 1 ''555'' options, SessionOn 9 ''progress'',
                    SessionOn 9 ''confirmed'', SessionOn 9 ''ended'',
                    SessionOn 9 ''failed''] \<rparr>"
  by (simp add: busy_state_def run_def ready_state_eq registered_state_eq isConnected_def
        jssip_ok_def handler_defs)

lemma hung_up_state_eq:
  "hung_up_state = busy_state
     \<lparr> callState := terminated,
       logEntries := [''Call terminated.'', ''Call in progress...'', ''Dialing 555...'',
                      ''Registered with SIP server.'', ''Socket connected.'',
                      ''Connecting...''],
       engine := engine busy_state @ [SessionTerminate 9] \<rparr>"
  by (simp add: hung_up_state_def run_def busy_state_eq registered_state_eq
        jssip_strict_def handler_defs)

lemma bad_url_state_eq: "bad_url_state = registered_state\<lparr>wsUri := ''foo''\<rparr>"
  by (simp add: bad_url_state_def run_def)

lemma at_sign_state_eq: "at_sign_state = registered_state\<lparr>number := ''@''\<rparr>"
  by (simp add: at_sign_state_def run_def)


section \<open>The activity log\<close>

lemma take_20_Cons_take: "take 20 (m # take 20 xs) = take 20 (m # xs)"
proof -
  have "take (Suc 19) (m # take 20 xs) = take (Suc 19) (m # xs)"
    by (simp add: min_def)
  then show ?thesis by simp
qed

lemma appends_log:
  "length (logEntries s) \<le> 20 \<Longrightarrow>
   logEntries (foldl (\<lambda>t m. addLog m t) s ms) = take 20 (rev ms @ logEntries s)"
proof (induction ms rule: rev_induct)
  case Nil
  then show ?case by simp
next
  case (snoc m ms)
  let ?f = "\<lambda>t m. addLog m t"
  have "logEntries (foldl ?f s (ms @ [m])) = take 20 (m # logEntries (foldl ?f s ms))"
    by (simp add: addLog_def)
  also have "\<dots> = take 20 (m # take 20 (rev ms @ logEntries s))"
    by (simp only: snoc.IH [OF snoc.prems])
  also have "\<dots> = take 20 (m # (rev ms @ logEntries s))"
    by (rule take_20_Cons_take)
  also have "\<dots> = take 20 (rev (ms @ [m]) @ logEntries s)"
    by simp
  finally show ?case .
qed

lemma step_log_bound:
  "length (logEntries s) \<le> 20 \<Longrightarrow> length (logEntries (step lib s a)) \<le> 20"
  by (cases a) (auto simp: handler_defs Let_def split: option.splits call_result.splits)

lemma run_log_bound:
  "length (logEntries s) \<le> 20 \<Longrightarrow> length (logEntries (run lib acts s)) \<le> 20"
  by (induction acts rule: rev_induct) (simp_all add: step_log_bound)

text \<open>
  Claim C6. Starting from a log of at most 20 entries (the log of a mounted component
  is empty), any sequence of \<open>addLog\<close> calls leaves the 20 most recent entries, newest
  first: the stored log is the first 20 elements of the appended messages in reverse
  order followed by the old log, so entries are dropped from the old end and never
  changed. Its length never exceeds 20, also after any sequence of commands and
  engine events. After 25 messages appended to an empty log, the log is the last 20 of
  them, newest first.
\<close>

theorem activity_log_bounded_newest_first:
  "length (logEntries s) \<le> 20 \<Longrightarrow>
     logEntries (foldl (\<lambda>t m. addLog m t) s ms) = take 20 (rev ms @ logEntries s)
   \<and> length (logEntries (foldl (\<lambda>t m. addLog m t) s ms)) \<le> 20
   \<and> (logEntries s = [] \<and> length ms = 25 \<longrightarrow>
        logEntries (foldl (\<lambda>t m. addLog m t) s ms) = rev (drop 5 ms))
   \<and> length (logEntries (run lib acts s)) \<le> 20"
proof -
  assume b: "length (logEntries s) \<le> 20"
  have eq: "logEntries (foldl (\<lambda>t m. addLog m t) s ms) = take 20 (rev ms @ logEntries s)"
    using b by (rule appends_log)
  have len: "length (logEntries (foldl (\<lambda>t m. addLog m t) s ms)) \<le> 20"
    by (simp add: eq)
  have last20: "logEntries s = [] \<and> length ms = 25 \<longrightarrow>
        logEntries (foldl (\<lambda>t m. addLog m t) s ms) = rev (drop 5 ms)"
    by (simp add: eq take_rev)
  show ?thesis using eq len last20 run_log_bound [OF b] by blast
qed

theorem activity_log_bounded_newest_first_witness:
  "length (logEntries initial) \<le> 20
   \<and> logEntries initial = [] \<and> length messages25 = 25
   \<and> logEntries (foldl (\<lambda>t m. addLog m t) initial messages25)
     = [''y'', ''x'', ''w'', ''v'', ''u'', ''t'', ''s'', ''r'', ''q'', ''p'', ''o'', ''n'', ''m'',
        ''l'', ''k'', ''j'', ''i'', ''h'', ''g'', ''f'']"
proof -
  have b: "length (logEntries initial) \<le> 20"
    by (simp add: initial_def)
  show ?thesis
    using activity_log_bounded_newest_first [OF b, of messages25] b
    by (simp add: initial_def messages25_def)
qed

section \<open>Rejected commands\<close>

text \<open>
  Claim C7. When the WebSocket URL, the SIP URI or the password is empty, \<open>connect\<close>
  puts one message at the front of the log and does nothing else: the status, the
  held UA and every other field keep their values and no call is made on JsSIP.
\<close>

theorem connect_validation:
  "wsUri s = [] \<or> sipUri s = [] \<or> password s = [] \<Longrightarrow>
     connect lib s =
       s\<lparr>logEntries :=
            take 20 (''Please provide WebSocket URL, SIP URI, and password.'' # logEntries s)\<rparr>
   \<and> status (connect lib s) = status s
   \<and> uaRef (connect lib s) = uaRef s
   \<and> engine (connect lib s) = engine s"
  by (simp add: connect_def addLog_def)

theorem connect_validation_witness:
  "(wsUri initial = [] \<or> sipUri initial = [] \<or> password initial = [])
   \<and> logEntries (connect jssip_ok initial) =
        [''Please provide WebSocket URL, SIP URI, and password.'']
   \<and> status (connect jssip_ok initial) = disconnected
   \<and> engine (connect jssip_ok initial) = []"
  using connect_validation [of initial jssip_ok]
  by (simp add: initial_def)

text \<open>
  Claim C8. When the status is neither \<open>connected\<close> nor \<open>registered\<close>, \<open>dial\<close> makes no
  call on JsSIP, puts exactly one entry at the front of the log and leaves the call
  state as it is. With an empty number \<open>dial\<close> is rejected in the same way: no call
  on JsSIP and one log entry, which names the connection when that check fails first
  and the missing number otherwise.
\<close>

theorem dial_rejected_when_unusable:
  "(\<not> isConnected s \<longrightarrow>
      engine (dial lib s) = engine s
      \<and> logEntries (dial lib s) = take 20 (''Connect to the SIP server first.'' # logEntries s)
      \<and> callState (dial lib s) = callState s)
   \<and> (number s = [] \<longrightarrow>
      engine (dial lib s) = engine s
      \<and> logEntries (dial lib s) =
          take 20 ((if uaRef s = None \<or> \<not> isConnected s
                    then ''Connect to the SIP server first.''
                    else ''Enter a destination number.'') # logEntries s)
      \<and> callState (dial lib s) = callState s)"
  by (simp add: dial_def addLog_def split: option.splits)

theorem dial_rejected_when_unusable_witness:
  "\<not> isConnected initial \<and> number initial = []
   \<and> engine (dial jssip_ok initial) = []
   \<and> logEntries (dial jssip_ok initial) = [''Connect to the SIP server first.'']
   \<and> callState (dial jssip_ok initial) = idle"
  using dial_rejected_when_unusable [of initial jssip_ok]
  by (simp add: initial_def isConnected_def)

section \<open>The keypad\<close>

text \<open>
  Claim C10. After a keypad press the dial string has at most 32 characters; a press
  on a string of exactly 32 characters leaves it unchanged; the digit is sent as DTMF
  to the referenced session whenever there is one, whatever the length of the string,
  and no call is made on JsSIP when there is none.
\<close>

theorem keypad_number_bounded:
  "length (number (handleKeypad digit s)) \<le> 32
   \<and> (length (number s) = 32 \<longrightarrow> number (handleKeypad digit s) = number s)
   \<and> (activeSessionRef s = Some x \<longrightarrow>
        engine (handleKeypad digit s) = engine s @ [SessionSendDTMF x digit])
   \<and> (activeSessionRef s = None \<longrightarrow> engine (handleKeypad digit s) = engine s)"
  by (auto simp: handleKeypad_def called_def Let_def split: option.splits)

theorem keypad_number_bounded_witness:
  "length (number full_number_state) = 32
   \<and> activeSessionRef full_number_state = Some 7
   \<and> number (handleKeypad ''5'' full_number_state) = ''12345678901234567890123456789012''
   \<and> engine (handleKeypad ''5'' full_number_state) = [SessionSendDTMF 7 ''5'']"
  using keypad_number_bounded [of "''5''" full_number_state 7]
  by (simp add: full_number_state_def initial_def)

section \<open>The session reference\<close>

lemma step_activeSessionRef:
  "activeSessionRef (step lib s a) = announced lib s a"
  by (cases a)
    (simp_all add: announced_def announces_def dial_announces_def handler_defs Let_def
       split: option.splits call_result.splits)

lemma step_keeps_session:
  "activeSessionRef s \<noteq> None \<Longrightarrow> activeSessionRef (step lib s a) \<noteq> None"
  by (simp add: step_activeSessionRef announced_def split: option.splits)

lemma run_keeps_session:
  "activeSessionRef s \<noteq> None \<Longrightarrow> activeSessionRef (run lib acts s) \<noteq> None"
  by (induction acts rule: rev_induct) (simp_all add: step_keeps_session)

lemma run_activeSessionRef:
  "activeSessionRef (run lib acts s) =
     (if announcements lib s acts = [] then activeSessionRef s
      else Some (last (announcements lib s acts)))"
proof (induction acts arbitrary: s)
  case Nil
  then show ?case by simp
next
  case (Cons a acts)
  have "activeSessionRef (run lib (a # acts) s) = activeSessionRef (run lib acts (step lib s a))"
    by (simp add: run_Cons)
  also have "\<dots> =
     (if announcements lib (step lib s a) acts = [] then activeSessionRef (step lib s a)
      else Some (last (announcements lib (step lib s a) acts)))"
    by (rule Cons.IH)
  also have "\<dots> =
     (if announcements lib s (a # acts) = [] then activeSessionRef s
      else Some (last (announcements lib s (a # acts))))"
    by (simp add: step_activeSessionRef announced_def split: option.splits)
  finally show ?case .
qed

text \<open>
  In \<open>busy_state\<close> session 9 is referenced. When JsSIP announces session 20, the
  reference is overwritten with 20 and nothing is sent to refuse session 20.
\<close>

theorem new_session_adopted_counterexample:
  "activeSessionRef busy_state = Some 9
   \<and> activeSessionRef (newRTCSession 20 busy_state) = Some 20
   \<and> SessionTerminate 20 \<notin> set (engine (newRTCSession 20 busy_state))"
  by (simp add: busy_state_eq registered_state_eq newRTCSession_def called_def)

text \<open>
  Claim C2, as the code has it. The component keeps its session in one reference, so
  it holds at most one session at any time: after every sequence of commands and
  engine events the reference is the session announced last, or the initial value when
  none was announced. A session that arrives is adopted whether or not one is held:
  the reference is overwritten with the new session, the four handlers are registered
  on it, and no other call is made on JsSIP, in particular none that refuses the new
  session or ends the old one.
\<close>

theorem session_reference_is_last_announced:
  "activeSessionRef (run lib acts s) =
     (if announcements lib s acts = [] then activeSessionRef s
      else Some (last (announcements lib s acts)))
   \<and> activeSessionRef (newRTCSession x s) = Some x
   \<and> engine (newRTCSession x s) =
       engine s @ [SessionOn x ''progress'', SessionOn x ''confirmed'',
                   SessionOn x ''ended'', SessionOn x ''failed'']"
  by (simp add: run_activeSessionRef newRTCSession_def called_def)

theorem session_reference_is_last_announced_witness:
  "announcements jssip_ok initial [NewRTCSession 7, SessionEnded, NewRTCSession 8, Hangup]
     = [7, 8]
   \<and> activeSessionRef
     (run jssip_ok [NewRTCSession 7, SessionEnded, NewRTCSession 8, Hangup] initial) = Some 8"
proof -
  have a: "announcements jssip_ok initial
             [NewRTCSession 7, SessionEnded, NewRTCSession 8, Hangup] = [7, 8]"
    by (simp add: announces_def)
  have r: "activeSessionRef
     (run jssip_ok [NewRTCSession 7, SessionEnded, NewRTCSession 8, Hangup] initial) = Some 8"
    using session_reference_is_last_announced
          [of jssip_ok "[NewRTCSession 7, SessionEnded, NewRTCSession 8, Hangup]" initial]
    unfolding a by simp
  show ?thesis using a r by (rule conjI)
qed

text \<open>
  In \<open>busy_state\<close> session 9 is referenced. It is still referenced after JsSIP
  reports that the session ended, after it reports that the session failed, and after
  \<open>hangup\<close>.
\<close>

theorem session_not_released_counterexample:
  "activeSessionRef busy_state = Some 9
   \<and> activeSessionRef (run jssip_ok [CallEnded, SessionEnded] busy_state) = Some 9
   \<and> activeSessionRef (run jssip_ok [CallFailed None, SessionFailed None] busy_state) = Some 9
   \<and> activeSessionRef (hangup jssip_ok busy_state) = Some 9"
  by (simp add: busy_state_eq registered_state_eq run_def jssip_ok_def handler_defs)

text \<open>
  Claim C3, as the code has it. The \<open>ended\<close> handlers set the call state to
  \<open>terminated\<close> and the \<open>failed\<close> handlers set it to \<open>failed\<close>; \<open>hangup\<close> on a
  referenced session asks JsSIP to terminate it and, when that call returns, sets the
  call state to \<open>terminated\<close> and logs one entry; \<open>hangup\<close> does nothing when no
  session is referenced. None of them writes the session reference, which keeps its
  value: a step that announces no session leaves the reference as it is, and a
  referenced session is never followed by an absent one.
\<close>

theorem session_reference_kept_on_termination:
  "activeSessionRef (session_ended s) = activeSessionRef s
   \<and> callState (session_ended s) = terminated
   \<and> activeSessionRef (call_ended s) = activeSessionRef s
   \<and> callState (call_ended s) = terminated
   \<and> activeSessionRef (session_failed c s) = activeSessionRef s
   \<and> callState (session_failed c s) = failed
   \<and> activeSessionRef (call_failed c s) = activeSessionRef s
   \<and> callState (call_failed c s) = failed
   \<and> activeSessionRef (hangup lib s) = activeSessionRef s
   \<and> (activeSessionRef s = Some x \<and> session_terminate lib (engine s) x = None \<longrightarrow>
         callState (hangup lib s) = terminated
         \<and> engine (hangup lib s) = engine s @ [SessionTerminate x]
         \<and> logEntries (hangup lib s) = take 20 (''Call terminated.'' # logEntries s))
   \<and> (activeSessionRef s = None \<longrightarrow> hangup lib s = s)
   \<and> (announces lib s a = None \<longrightarrow>
         activeSessionRef (step lib s a) = activeSessionRef s)
   \<and> (activeSessionRef s \<noteq> None \<longrightarrow> activeSessionRef (run lib acts s) \<noteq> None)"
proof -
  have kept: "announces lib s a = None \<longrightarrow> activeSessionRef (step lib s a) = activeSessionRef s"
    by (simp add: step_activeSessionRef announced_def)
  have never: "activeSessionRef s \<noteq> None \<longrightarrow> activeSessionRef (run lib acts s) \<noteq> None"
    using run_keeps_session [of s lib acts] by blast
  have handlers:
    "activeSessionRef (session_ended s) = activeSessionRef s
     \<and> callState (session_ended s) = terminated
     \<and> activeSessionRef (call_ended s) = activeSessionRef s
     \<and> callState (call_ended s) = terminated
     \<and> activeSessionRef (session_failed c s) = activeSessionRef s
     \<and> callState (session_failed c s) = failed
     \<and> activeSessionRef (call_failed c s) = activeSessionRef s
     \<and> callState (call_failed c s) = failed"
    by (simp add: handler_defs)
  have hang:
    "activeSessionRef (hangup lib s) = activeSessionRef s
     \<and> (activeSessionRef s = Some x \<and> session_terminate lib (engine s) x = None \<longrightarrow>
         callState (hangup lib s) = terminated
         \<and> engine (hangup lib s) = engine s @ [SessionTerminate x]
         \<and> logEntries (hangup lib s) = take 20 (''Call terminated.'' # logEntries s))
     \<and> (activeSessionRef s = None \<longrightarrow> hangup lib s = s)"
    by (simp add: hangup_def addLog_def setCallState_def called_def Let_def
          split: option.splits)
  show ?thesis
    using kept never handlers hang by blast
qed

theorem session_reference_kept_on_termination_witness:
  "activeSessionRef busy_state = Some 9
   \<and> session_terminate jssip_ok (engine busy_state) 9 = None
   \<and> announces jssip_ok busy_state Hangup = None
   \<and> callState (hangup jssip_ok busy_state) = terminated
   \<and> engine (hangup jssip_ok busy_state) = engine busy_state @ [SessionTerminate 9]
   \<and> activeSessionRef (step jssip_ok busy_state Hangup) = Some 9
   \<and> activeSessionRef (run jssip_ok [SessionEnded, Hangup] busy_state) \<noteq> None"
  using session_reference_kept_on_termination
          [of busy_state None jssip_ok 9 Hangup "[SessionEnded, Hangup]"]
  by (simp add: busy_state_eq registered_state_eq jssip_ok_def announces_def)

section \<open>Dialling\<close>

text \<open>\<open>dial\<close> itself does not read the call state.\<close>

lemma dial_does_not_read_callState:
  "dial lib (s\<lparr>callState := c\<rparr>) = (dial lib s)\<lparr>callState := c\<rparr>"
  by (simp add: dial_def isConnected_def addLog_def called_def newRTCSession_def Let_def
        split: option.splits call_result.splits)







text \<open>
  In \<open>ready_state\<close> the status is \<open>registered\<close> and the number is \<open>555\<close>. After
  \<open>dial\<close> the call state is still \<open>idle\<close>, not \<open>calling\<close>. In \<open>at_sign_state\<close> the
  number is \<open>@\<close>; the library raises on it, and after \<open>dial\<close> no session is
  referenced and nothing is logged.
\<close>

theorem dial_does_not_set_calling_counterexample:
  "isConnected ready_state \<and> number ready_state \<noteq> []
   \<and> callState (dial jssip_ok ready_state) = idle
   \<and> isConnected at_sign_state \<and> number at_sign_state \<noteq> []
   \<and> activeSessionRef (dial jssip_strict at_sign_state) = None
   \<and> callState (dial jssip_strict at_sign_state) = idle
   \<and> logEntries (dial jssip_strict at_sign_state) = logEntries at_sign_state"
  by (simp add: ready_state_eq at_sign_state_eq registered_state_eq dial_def isConnected_def
        jssip_ok_def jssip_strict_def addLog_def called_def newRTCSession_def)

text \<open>
  Claim C4, as the code has it. When a UA is held, the status is \<open>connected\<close> or
  \<open>registered\<close> and the number is not empty, \<open>dial\<close> asks the UA for one call to the
  number, with audio and without video, RTCP multiplexing required and the public STUN
  server \<open>stun:stun.l.google.com:19302\<close>, and it leaves the call state as it is. When
  that call returns, the session the library announced is stored in the session
  reference, with its four handlers registered, and \<open>Dialing <number>...\<close> is logged.
  The call state becomes \<open>calling\<close> when JsSIP reports progress.
\<close>

theorem dial_requests_audio_session:
  "uaRef s = Some ua \<Longrightarrow> isConnected s \<Longrightarrow> number s \<noteq> [] \<Longrightarrow>
     take (Suc (length (engine s))) (engine (dial lib s)) =
       engine s @ [UaCall ua (number s) options]
   \<and> audio options \<and> \<not> video options
   \<and> rtcpMuxPolicy options = ''require''
   \<and> iceServers options = [[''stun:stun.l.google.com:19302'']]
   \<and> callState (dial lib s) = callState s
   \<and> (ua_call lib (engine s) ua (number s) = CallAnnounces x \<longrightarrow>
        activeSessionRef (dial lib s) = Some x
        \<and> engine (dial lib s) =
            engine s @ [UaCall ua (number s) options, SessionOn x ''progress'',
                        SessionOn x ''confirmed'', SessionOn x ''ended'',
                        SessionOn x ''failed'']
        \<and> logEntries (dial lib s) =
            take 20 ((''Dialing '' @ number s @ ''...'') # logEntries s))
   \<and> callState (call_progress (dial lib s)) = calling
   \<and> callState (session_progress (dial lib s)) = calling"
  by (simp add: options_def handler_defs Let_def split: call_result.splits)

theorem dial_requests_audio_session_witness:
  "uaRef ready_state = Some 1 \<and> isConnected ready_state \<and> number ready_state \<noteq> []
   \<and> ua_call jssip_ok (engine ready_state) 1 (number ready_state) = CallAnnounces 9
   \<and> activeSessionRef (dial jssip_ok ready_state) = Some 9
   \<and> callState (dial jssip_ok ready_state) = idle
   \<and> logEntries (dial jssip_ok ready_state) =
       [''Dialing 555...'', ''Registered with SIP server.'', ''Socket connected.'',
        ''Connecting...'']"
  using dial_requests_audio_session [of ready_state 1 jssip_ok 9]
  by (simp add: ready_state_eq registered_state_eq isConnected_def jssip_ok_def)

section \<open>Disconnecting\<close>

text \<open>
  In \<open>busy_state\<close> session 9 is referenced; after \<open>disconnect\<close> it still is. In
  \<open>hung_up_state\<close> the user has hung up that call and the status is \<open>registered\<close>;
  \<open>terminate\<close> raises on the session, which is still referenced, and after
  \<open>disconnect\<close> the status is still \<open>registered\<close>.
\<close>

theorem disconnect_keeps_session_counterexample:
  "activeSessionRef busy_state = Some 9
   \<and> activeSessionRef (run jssip_ok [Disconnect] busy_state) = Some 9
   \<and> activeSessionRef hung_up_state = Some 9
   \<and> status (run jssip_strict [Disconnect] hung_up_state) = registered"
  by (simp add: hung_up_state_eq busy_state_eq registered_state_eq run_def jssip_ok_def
        jssip_strict_def handler_defs)

text \<open>
  Claim C5, as the code has it. After \<open>disconnect\<close>, at the end of any sequence of
  commands and engine events and provided that \<open>terminate\<close> returns on the referenced
  session if there is one, the status is \<open>disconnected\<close> and the call state is
  \<open>terminated\<close>, and exactly one entry has been put at the front of the log. A
  referenced session is asked to terminate and a held UA is asked to stop, in this
  order; when neither is held no call is made on JsSIP, so nothing can fail. The
  session reference and the UA reference keep their values.
\<close>

theorem disconnect_effect:
  assumes "s = run lib acts s0" and "terminate_returns lib s"
  shows "run lib (acts @ [Disconnect]) s0 = disconnect lib s
   \<and> status (disconnect lib s) = disconnected
   \<and> callState (disconnect lib s) = terminated
   \<and> logEntries (disconnect lib s) = take 20 (''Disconnected from server.'' # logEntries s)
   \<and> engine (disconnect lib s) =
       engine s @ (case activeSessionRef s of None \<Rightarrow> [] | Some x \<Rightarrow> [SessionTerminate x])
                @ (case uaRef s of None \<Rightarrow> [] | Some u \<Rightarrow> [UaStop u])
   \<and> (uaRef s = None \<and> activeSessionRef s = None \<longrightarrow> engine (disconnect lib s) = engine s)
   \<and> activeSessionRef (disconnect lib s) = activeSessionRef s
   \<and> uaRef (disconnect lib s) = uaRef s"
proof -
  have last: "run lib (acts @ [Disconnect]) s0 = disconnect lib s"
    by (simp add: assms(1))
  have effect: "status (disconnect lib s) = disconnected
   \<and> callState (disconnect lib s) = terminated
   \<and> logEntries (disconnect lib s) = take 20 (''Disconnected from server.'' # logEntries s)
   \<and> engine (disconnect lib s) =
       engine s @ (case activeSessionRef s of None \<Rightarrow> [] | Some x \<Rightarrow> [SessionTerminate x])
                @ (case uaRef s of None \<Rightarrow> [] | Some u \<Rightarrow> [UaStop u])
   \<and> (uaRef s = None \<and> activeSessionRef s = None \<longrightarrow> engine (disconnect lib s) = engine s)
   \<and> activeSessionRef (disconnect lib s) = activeSessionRef s
   \<and> uaRef (disconnect lib s) = uaRef s"
    using assms(2)
    by (auto simp: terminate_returns_def handler_defs Let_def split: option.splits)
  show ?thesis using last effect by (rule conjI)
qed

theorem disconnect_effect_witness:
  "busy_state = run jssip_ok [Dial, CallProgress, SessionProgress] ready_state
   \<and> terminate_returns jssip_ok busy_state
   \<and> activeSessionRef busy_state = Some 9 \<and> uaRef busy_state = Some 1
   \<and> status busy_state = registered
   \<and> status (disconnect jssip_ok busy_state) = disconnected
   \<and> callState (disconnect jssip_ok busy_state) = terminated
   \<and> engine (disconnect jssip_ok busy_state) =
       engine busy_state @ [SessionTerminate 9, UaStop 1]"
proof -
  have reached: "busy_state = run jssip_ok [Dial, CallProgress, SessionProgress] ready_state"
    by (rule busy_state_def)
  have returns: "terminate_returns jssip_ok busy_state"
    by (simp add: terminate_returns_def jssip_ok_def busy_state_eq)
  have at_input:
    "activeSessionRef busy_state = Some 9 \<and> uaRef busy_state = Some 1
     \<and> status busy_state = registered
     \<and> status (disconnect jssip_ok busy_state) = disconnected
     \<and> callState (disconnect jssip_ok busy_state) = terminated
     \<and> engine (disconnect jssip_ok busy_state) =
         engine busy_state @ [SessionTerminate 9, UaStop 1]"
    using disconnect_effect [OF reached returns]
    by (simp add: busy_state_eq registered_state_eq)
  show ?thesis using reached returns at_input by blast
qed

section \<open>Connecting\<close>

lemma handles_known_initial: "handles_known initial"
  by (simp add: handles_known_def initial_def older_def)

lemma step_handles_known:
  "handles_known s \<Longrightarrow> handles_known (step lib s a)"
  by (cases a)
    (auto simp: handles_known_def handler_defs Let_def list_all_iff older_def
          split: option.splits call_result.splits)

lemma run_handles_known:
  "handles_known s \<Longrightarrow> handles_known (run lib acts s)"
  by (induction acts rule: rev_induct) (simp_all add: step_handles_known)

lemma handles_known_fresh:
  "handles_known s \<Longrightarrow>
   uaRef s \<noteq> Some (Suc (length (engine s)))
   \<and> (\<forall>c \<in> set (engine s). ua_of c \<noteq> Some (Suc (length (engine s))))"
  by (auto simp: handles_known_def older_def list_all_iff split: option.splits)

lemma connect_ignores_status:
  "wsUri s \<noteq> [] \<Longrightarrow> sipUri s \<noteq> [] \<Longrightarrow> password s \<noteq> [] \<Longrightarrow>
   connect lib (s\<lparr>status := st\<rparr>) = connect lib s"
  by (simp add: handler_defs Let_def split: option.splits)

lemma connect_constructs:
  "wsUri s \<noteq> [] \<Longrightarrow> sipUri s \<noteq> [] \<Longrightarrow> password s \<noteq> [] \<Longrightarrow>
   newWebSocketInterface lib (wsUri s) = None \<Longrightarrow> newUA lib (configuration s) = None \<Longrightarrow>
   connect lib s =
     s\<lparr> status := connecting,
        logEntries := take 20 (''Connecting...'' # logEntries s),
        uaRef := Some (Suc (length (engine s))),
        engine := engine s @
          [NewWebSocketInterface (wsUri s), NewUA (configuration s),
           UaOn (Suc (length (engine s))) ''connected'',
           UaOn (Suc (length (engine s))) ''disconnected'',
           UaOn (Suc (length (engine s))) ''registered'',
           UaOn (Suc (length (engine s))) ''unregistered'',
           UaOn (Suc (length (engine s))) ''registrationFailed'',
           UaOn (Suc (length (engine s))) ''newRTCSession'',
           UaStart (Suc (length (engine s)))] \<rparr>"
  by (simp add: connect_def Let_def addLog_def setStatus_def called_def ua_events_def)

lemma connect_socket_raises:
  "wsUri s \<noteq> [] \<Longrightarrow> sipUri s \<noteq> [] \<Longrightarrow> password s \<noteq> [] \<Longrightarrow>
   newWebSocketInterface lib (wsUri s) = Some m \<Longrightarrow>
   connect lib s =
     s\<lparr> status := disconnected,
        logEntries := take 20 ((''Connection error: '' @ m) # logEntries s),
        engine := engine s @ [NewWebSocketInterface (wsUri s)] \<rparr>"
  by (simp add: connect_def connect_catch_def Let_def addLog_def setStatus_def called_def)

lemma connect_ua_raises:
  "wsUri s \<noteq> [] \<Longrightarrow> sipUri s \<noteq> [] \<Longrightarrow> password s \<noteq> [] \<Longrightarrow>
   newWebSocketInterface lib (wsUri s) = None \<Longrightarrow> newUA lib (configuration s) = Some m \<Longrightarrow>
   connect lib s =
     s\<lparr> status := disconnected,
        logEntries := take 20 ((''Connection error: '' @ m) # logEntries s),
        engine := engine s @ [NewWebSocketInterface (wsUri s), NewUA (configuration s)] \<rparr>"
  by (simp add: connect_def connect_catch_def Let_def addLog_def setStatus_def called_def)

text \<open>
  In \<open>bad_url_state\<close> the status is \<open>registered\<close>, UA 1 is held and the three
  credentials are non-empty, the WebSocket URL being \<open>foo\<close>. The socket constructor
  raises, and \<open>connect\<close> ends with status \<open>disconnected\<close>, not \<open>connecting\<close>, and with
  UA 1 still held: no handle was constructed.
\<close>

theorem connect_raises_counterexample:
  "wsUri bad_url_state \<noteq> [] \<and> sipUri bad_url_state \<noteq> [] \<and> password bad_url_state \<noteq> []
   \<and> status bad_url_state = registered
   \<and> uaRef bad_url_state = Some 1
   \<and> status (connect jssip_strict bad_url_state) = disconnected
   \<and> uaRef (connect jssip_strict bad_url_state) = Some 1
   \<and> logEntries (connect jssip_strict bad_url_state) =
       [''Connection error: Invalid argument: foo'', ''Registered with SIP server.'',
        ''Socket connected.'', ''Connecting...'']"
  by (simp add: bad_url_state_eq registered_state_eq jssip_strict_def connect_def
        connect_catch_def addLog_def setStatus_def called_def)

text \<open>
  Claim C9, as the code has it. In every state reached by commands and engine events
  in which the three credentials are non-empty, \<open>connect\<close> does not consult the
  status: its result is the same whatever the status is. When both JsSIP constructors
  return, \<open>connect\<close> constructs a socket and a UA that is a new object (not the held
  one, and not one any earlier call was made on), registers the six handlers, starts
  the UA, stores it over the held reference without any \<open>stop\<close>, sets the status to
  \<open>connecting\<close> and logs \<open>Connecting...\<close>. When a constructor raises, \<open>connect\<close> logs
  the error message and sets the status to \<open>disconnected\<close>; the held reference stays.
\<close>

theorem connect_in_every_status:
  assumes "s = run lib0 acts initial"
    and "wsUri s \<noteq> []" and "sipUri s \<noteq> []" and "password s \<noteq> []"
  shows "connect lib (s\<lparr>status := st\<rparr>) = connect lib s
   \<and> (newWebSocketInterface lib (wsUri s) = None \<and> newUA lib (configuration s) = None \<longrightarrow>
        uaRef (connect lib s) = Some (Suc (length (engine s)))
        \<and> uaRef s \<noteq> Some (Suc (length (engine s)))
        \<and> (\<forall>c \<in> set (engine s). ua_of c \<noteq> Some (Suc (length (engine s))))
        \<and> status (connect lib s) = connecting
        \<and> logEntries (connect lib s) = take 20 (''Connecting...'' # logEntries s)
        \<and> engine (connect lib s) = engine s @
             [NewWebSocketInterface (wsUri s), NewUA (configuration s),
              UaOn (Suc (length (engine s))) ''connected'',
              UaOn (Suc (length (engine s))) ''disconnected'',
              UaOn (Suc (length (engine s))) ''registered'',
              UaOn (Suc (length (engine s))) ''unregistered'',
              UaOn (Suc (length (engine s))) ''registrationFailed'',
              UaOn (Suc (length (engine s))) ''newRTCSession'',
              UaStart (Suc (length (engine s)))]
        \<and> (\<forall>u. UaStop u \<notin> set (drop (length (engine s)) (engine (connect lib s)))))
   \<and> (newWebSocketInterface lib (wsUri s) = Some m \<longrightarrow>
        status (connect lib s) = disconnected
        \<and> uaRef (connect lib s) = uaRef s
        \<and> logEntries (connect lib s) = take 20 ((''Connection error: '' @ m) # logEntries s)
        \<and> engine (connect lib s) = engine s @ [NewWebSocketInterface (wsUri s)])
   \<and> (newWebSocketInterface lib (wsUri s) = None \<and> newUA lib (configuration s) = Some m \<longrightarrow>
        status (connect lib s) = disconnected
        \<and> uaRef (connect lib s) = uaRef s
        \<and> logEntries (connect lib s) = take 20 ((''Connection error: '' @ m) # logEntries s)
        \<and> engine (connect lib s) =
            engine s @ [NewWebSocketInterface (wsUri s), NewUA (configuration s)])"
proof -
  have known: "handles_known s"
    unfolding assms(1) by (rule run_handles_known [OF handles_known_initial])
  have indep: "connect lib (s\<lparr>status := st\<rparr>) = connect lib s"
    using assms(2-4) by (rule connect_ignores_status)
  have built: "newWebSocketInterface lib (wsUri s) = None \<and> newUA lib (configuration s) = None \<longrightarrow>
        uaRef (connect lib s) = Some (Suc (length (engine s)))
        \<and> uaRef s \<noteq> Some (Suc (length (engine s)))
        \<and> (\<forall>c \<in> set (engine s). ua_of c \<noteq> Some (Suc (length (engine s))))
        \<and> status (connect lib s) = connecting
        \<and> logEntries (connect lib s) = take 20 (''Connecting...'' # logEntries s)
        \<and> engine (connect lib s) = engine s @
             [NewWebSocketInterface (wsUri s), NewUA (configuration s),
              UaOn (Suc (length (engine s))) ''connected'',
              UaOn (Suc (length (engine s))) ''disconnected'',
              UaOn (Suc (length (engine s))) ''registered'',
              UaOn (Suc (length (engine s))) ''unregistered'',
              UaOn (Suc (length (engine s))) ''registrationFailed'',
              UaOn (Suc (length (engine s))) ''newRTCSession'',
              UaStart (Suc (length (engine s)))]
        \<and> (\<forall>u. UaStop u \<notin> set (drop (length (engine s)) (engine (connect lib s))))"
    using handles_known_fresh [OF known] connect_constructs [OF assms(2-4), of lib]
    by auto
  have socket: "newWebSocketInterface lib (wsUri s) = Some m \<longrightarrow>
        status (connect lib s) = disconnected
        \<and> uaRef (connect lib s) = uaRef s
        \<and> logEntries (connect lib s) = take 20 ((''Connection error: '' @ m) # logEntries s)
        \<and> engine (connect lib s) = engine s @ [NewWebSocketInterface (wsUri s)]"
    using connect_socket_raises [OF assms(2-4), of lib m] by auto
  have ua: "newWebSocketInterface lib (wsUri s) = None \<and> newUA lib (configuration s) = Some m \<longrightarrow>
        status (connect lib s) = disconnected
        \<and> uaRef (connect lib s) = uaRef s
        \<and> logEntries (connect lib s) = take 20 ((''Connection error: '' @ m) # logEntries s)
        \<and> engine (connect lib s) =
            engine s @ [NewWebSocketInterface (wsUri s), NewUA (configuration s)]"
    using connect_ua_raises [OF assms(2-4), of lib m] by auto
  show ?thesis
    using indep built socket ua by blast
qed

theorem connect_in_every_status_witness:
  "registered_state =
     run jssip_ok [SetPassword ''secret'', Connect, UaConnected, UaRegistered] initial
   \<and> wsUri registered_state \<noteq> [] \<and> sipUri registered_state \<noteq> []
   \<and> password registered_state \<noteq> []
   \<and> newWebSocketInterface jssip_ok (wsUri registered_state) = None
   \<and> newUA jssip_ok (configuration registered_state) = None
   \<and> status registered_state = registered
   \<and> uaRef registered_state = Some 1
   \<and> uaRef (connect jssip_ok registered_state) = Some 10
   \<and> status (connect jssip_ok registered_state) = connecting
   \<and> UaStop 1 \<notin> set (engine (connect jssip_ok registered_state))"
proof -
  have reached: "registered_state =
      run jssip_ok [SetPassword ''secret'', Connect, UaConnected, UaRegistered] initial"
    by (rule registered_state_def)
  have valid: "wsUri registered_state \<noteq> []" "sipUri registered_state \<noteq> []"
    "password registered_state \<noteq> []"
    by (simp_all add: registered_state_eq)
  have at_input:
    "wsUri registered_state \<noteq> [] \<and> sipUri registered_state \<noteq> []
     \<and> password registered_state \<noteq> []
     \<and> newWebSocketInterface jssip_ok (wsUri registered_state) = None
     \<and> newUA jssip_ok (configuration registered_state) = None
     \<and> status registered_state = registered
     \<and> uaRef registered_state = Some 1
     \<and> uaRef (connect jssip_ok registered_state) = Some 10
     \<and> status (connect jssip_ok registered_state) = connecting
     \<and> UaStop 1 \<notin> set (engine (connect jssip_ok registered_state))"
    using connect_in_every_status [OF reached valid, of jssip_ok connected]
    by (simp add: registered_state_eq jssip_ok_def configuration_def)
  show ?thesis using reached at_input by blast
qed

end
